theory Spec2Isabelle
  imports Main
begin

section \<open>Data model\<close>

text \<open>
  The roles of \<^verbatim>\<open>RolesEnum\<close>, as the services and controllers name them
  (\<^verbatim>\<open>RolesEnum.Admin\<close>, \<^verbatim>\<open>RolesEnum.Seller\<close>, \<^verbatim>\<open>RolesEnum.User\<close>).
\<close>

datatype RolesEnum = Admin | Seller | User

text \<open>
  The authenticated caller (\<^verbatim>\<open>RequestUser\<close>): the identity context of the specification,
  an id and a role.
\<close>

record RequestUser =
  requestUser_id :: int
  role :: RolesEnum

text \<open>
  A row of the user table. The service reads and writes the columns \<^verbatim>\<open>id\<close>,
  \<^verbatim>\<open>isActive\<close>, \<^verbatim>\<open>password\<close> and \<^verbatim>\<open>roles\<close>; every other column of the entity is
  kept abstract in \<open>columns\<close>. The column \<^verbatim>\<open>roles\<close> can be unset until \<^verbatim>\<open>create\<close>
  fills it in.
\<close>

record 'f UserEntity =
  user_id :: int
  isActive :: bool
  password :: string
  roles :: "RolesEnum option"
  columns :: 'f

text \<open>
  The payload of \<^verbatim>\<open>create\<close>. \<^verbatim>\<open>new UserEntity(createUserPayload)\<close> copies the
  payload's properties into an entity that has no id yet, so the same record stands for the
  entity before it is saved.
\<close>

record 'f CreateUserPayload =
  payload_password :: string
  payload_roles :: "RolesEnum option"
  payload_fields :: 'f

text \<open>
  Modelled from the spec: \<^verbatim>\<open>UpdateUserPaylaod\<close> is not among the sources. The update
  contract of the specification lets the patch carry any entity-specific column and neither
  \<^verbatim>\<open>id\<close> nor \<^verbatim>\<open>isActive\<close>; each property is optional, and an absent one leaves its
  column as it is.
\<close>

record 'f UpdateUserPaylaod =
  patch_password :: "string option"
  patch_roles :: "RolesEnum option"
  patch_fields :: "'f \<Rightarrow> 'f"

text \<open>
  The exceptions of the services. \<open>TypeError\<close> is what JavaScript raises when a
  property of \<^verbatim>\<open>undefined\<close> is read.
\<close>

datatype error =
    EntityNotFoundException int
  | ForbiddenException
  | EntityAlreadyDisabledException int
  | EntityAlreadyEnabledException int
  | TypeError

text \<open>
  A parsed CRUD request: the conjunction \<^verbatim>\<open>parsed.search.$and\<close>, each condition a
  predicate on the rows of the kind that is queried.
\<close>

record 'e CrudRequest =
  search_and :: "('e \<Rightarrow> bool) list"

text \<open>
  A row of a table whose rows belong to a user (addresses, orders, products): the column
  \<^verbatim>\<open>userId\<close> holds the owner, as the filters of the listings name it.
\<close>

record 'b OwnedEntity =
  res_id :: int
  res_userId :: int
  res_isActive :: bool
  body :: 'b

text \<open>\<^verbatim>\<open>UpdateOrderPayload\<close>: two optional properties.\<close>

record 's UpdateOrderPayload =
  status :: "'s option"
  trackingCode :: "string option"

text \<open>The entity-specific columns of an order that the payload above names.\<close>

record 's OrderColumns =
  order_status :: 's
  order_trackingCode :: string

section \<open>The repository\<close>

text \<open>
  The user table is a list of rows. \<^verbatim>\<open>UserEntity.findOne({ id: userId })\<close> returns the
  first row with that id, or nothing.
\<close>

definition findOne :: "'f UserEntity list \<Rightarrow> int \<Rightarrow> 'f UserEntity option" where
  "findOne db userId = find (\<lambda>e. user_id e = userId) db"

text \<open>
  \<^verbatim>\<open>super.getOne(crudRequest).catch(() => undefined)\<close>: the first row that meets every
  condition of the request, or nothing.
\<close>

definition getOne :: "'e CrudRequest \<Rightarrow> 'e list \<Rightarrow> 'e option" where
  "getOne crudRequest db = find (\<lambda>e. list_all (\<lambda>c. c e) (search_and crudRequest)) db"

text \<open>
  The listing operation \<^verbatim>\<open>getMany\<close> of a CRUD service over its table: the rows that
  meet every condition of the request.
\<close>

definition getMany :: "'e list \<Rightarrow> 'e CrudRequest \<Rightarrow> 'e list" where
  "getMany table crudRequest = filter (\<lambda>e. list_all (\<lambda>c. c e) (search_and crudRequest)) table"

text \<open>
  \<^verbatim>\<open>UserEntity.update({ id: userId }, partial)\<close> writes the properties of the partial
  entity into every row with that id.
\<close>

definition UserEntity_update ::
  "int \<Rightarrow> ('f UserEntity \<Rightarrow> 'f UserEntity) \<Rightarrow> 'f UserEntity list \<Rightarrow> 'f UserEntity list" where
  "UserEntity_update userId partial db = map (\<lambda>e. if user_id e = userId then partial e else e) db"

text \<open>\<^verbatim>\<open>UserEntity.delete({ id: userId })\<close> removes every row with that id.\<close>

definition UserEntity_delete :: "int \<Rightarrow> 'f UserEntity list \<Rightarrow> 'f UserEntity list" where
  "UserEntity_delete userId db = filter (\<lambda>e. user_id e \<noteq> userId) db"

text \<open>
  Modelled from the spec: the base entity and the persistence layer are not among the
  sources. The specification gives every resource an id that is generated on creation and
  unique, and an \<^verbatim>\<open>isActive\<close> flag that defaults to true. The generated id is the
  successor of the largest id in the table (and of 0).
\<close>

definition generated_id :: "'f UserEntity list \<Rightarrow> int" where
  "generated_id db = foldr max (map user_id db) 0 + 1"

definition save :: "'f CreateUserPayload \<Rightarrow> 'f UserEntity list \<Rightarrow> 'f UserEntity \<times> 'f UserEntity list" where
  "save entity db =
     (let saved = \<lparr> user_id = generated_id db, isActive = True,
                    password = payload_password entity, roles = payload_roles entity,
                    columns = payload_fields entity \<rparr>
      in (saved, db @ [saved]))"

text \<open>The partial entity that an update payload stands for.\<close>

definition applyUpdateUserPaylaod :: "'f UpdateUserPaylaod \<Rightarrow> 'f UserEntity \<Rightarrow> 'f UserEntity" where
  "applyUpdateUserPaylaod p e =
     e\<lparr> password := (case patch_password p of None \<Rightarrow> password e | Some v \<Rightarrow> v),
        roles := (case patch_roles p of None \<Rightarrow> roles e | Some r \<Rightarrow> Some r),
        columns := patch_fields p (columns e) \<rparr>"

text \<open>
  The partial entity of \<^verbatim>\<open>UpdateOrderPayload\<close>: \<^verbatim>\<open>status\<close> and \<^verbatim>\<open>trackingCode\<close>
  when they are present, and no other column.
\<close>

definition applyUpdateOrderPayload ::
  "'s UpdateOrderPayload \<Rightarrow> 's OrderColumns OwnedEntity \<Rightarrow> 's OrderColumns OwnedEntity" where
  "applyUpdateOrderPayload p e =
     e\<lparr> body := \<lparr> order_status = (case status p of None \<Rightarrow> order_status (body e) | Some v \<Rightarrow> v),
                  order_trackingCode =
                    (case trackingCode p of None \<Rightarrow> order_trackingCode (body e) | Some v \<Rightarrow> v) \<rparr> \<rparr>"

section \<open>The user service\<close>

text \<open>
  Modelled from the spec: \<^verbatim>\<open>isAdminUser\<close> (\<^verbatim>\<open>src/utils/validations\<close>) is not among the
  sources. The ownership policy of the specification reads it as "the caller's role is
  Admin".
\<close>

definition isAdminUser :: "RequestUser \<Rightarrow> bool" where
  "isAdminUser requestUser = (role requestUser = Admin)"

definition hasPermissions :: "int \<Rightarrow> RequestUser \<Rightarrow> bool" where
  "hasPermissions entityId requestUser =
     (entityId = requestUser_id requestUser \<or> isAdminUser requestUser)"

text \<open>
  An operation returns what the caller sees (an exception or a value) and the table after
  the call.
\<close>

type_synonym ('f, 'a) outcome = "(error + 'a) \<times> 'f UserEntity list"

text \<open>
  \<^verbatim>\<open>create\<close>: the password goes through \<^verbatim>\<open>encryptPassword\<close> (a parameter: the
  hashing utility is not among the sources), the role defaults to \<^verbatim>\<open>RolesEnum.User\<close>,
  and the entity is saved.
\<close>

definition create ::
  "(string \<Rightarrow> string) \<Rightarrow> 'f CreateUserPayload \<Rightarrow> 'f UserEntity list
     \<Rightarrow> 'f UserEntity \<times> 'f UserEntity list" where
  "create encryptPassword createUserPayload db =
     (let entity = createUserPayload;
          entity = entity\<lparr> payload_password := encryptPassword (payload_password entity) \<rparr>;
          entity = entity\<lparr> payload_roles :=
                     Some (case payload_roles entity of None \<Rightarrow> User | Some r \<Rightarrow> r) \<rparr>
      in save entity db)"

definition get ::
  "int \<Rightarrow> RequestUser \<Rightarrow> 'f UserEntity CrudRequest option \<Rightarrow> 'f UserEntity list
     \<Rightarrow> ('f, 'f UserEntity) outcome" where
  "get userId requestUser crudRequest db =
     (let entity =
            (case crudRequest of
               Some r \<Rightarrow>
                 getOne (r\<lparr> search_and := search_and r @ [\<lambda>e. user_id e = userId] \<rparr>) db
             | None \<Rightarrow> findOne db userId)
      in case entity of
           None \<Rightarrow> (Inl (EntityNotFoundException userId), db)
         | Some entity \<Rightarrow>
             if \<not> isActive entity then (Inl (EntityNotFoundException userId), db)
             else if \<not> hasPermissions (user_id entity) requestUser
               then (Inl ForbiddenException, db)
             else (Inr entity, db))"

text \<open>
  The listings of a user's addresses, orders and products. The service of the related kind
  is a collaborator given at construction; here it is its \<^verbatim>\<open>getMany\<close>. The request is
  optional in the signature and read without a test, which raises \<open>TypeError\<close> when it is
  absent.
\<close>

definition getAddressesByUserId ::
  "('b OwnedEntity CrudRequest \<Rightarrow> 'r) \<Rightarrow> int \<Rightarrow> RequestUser
     \<Rightarrow> 'b OwnedEntity CrudRequest option \<Rightarrow> 'f UserEntity list \<Rightarrow> ('f, 'r) outcome" where
  "getAddressesByUserId addressService_getMany userId requestUser crudRequest db =
     (case findOne db userId of
        None \<Rightarrow> (Inl (EntityNotFoundException userId), db)
      | Some entity \<Rightarrow>
          if \<not> isActive entity then (Inl (EntityNotFoundException userId), db)
          else if \<not> hasPermissions (user_id entity) requestUser
            then (Inl ForbiddenException, db)
          else (case crudRequest of
                  None \<Rightarrow> (Inl TypeError, db)
                | Some r \<Rightarrow>
                    (Inr (addressService_getMany
                            (r\<lparr> search_and := search_and r @ [\<lambda>a. res_userId a = userId] \<rparr>)), db)))"

definition getProductsByUserId ::
  "('b OwnedEntity CrudRequest \<Rightarrow> 'r) \<Rightarrow> int
     \<Rightarrow> 'b OwnedEntity CrudRequest option \<Rightarrow> 'f UserEntity list \<Rightarrow> ('f, 'r) outcome" where
  "getProductsByUserId productService_getMany userId crudRequest db =
     (case findOne db userId of
        None \<Rightarrow> (Inl (EntityNotFoundException userId), db)
      | Some entity \<Rightarrow>
          if \<not> isActive entity then (Inl (EntityNotFoundException userId), db)
          else (case crudRequest of
                  None \<Rightarrow> (Inl TypeError, db)
                | Some r \<Rightarrow>
                    (Inr (productService_getMany
                            (r\<lparr> search_and := search_and r @ [\<lambda>a. res_userId a = userId] \<rparr>)), db)))"

definition getOrdersByUserId ::
  "('b OwnedEntity CrudRequest \<Rightarrow> 'r) \<Rightarrow> int \<Rightarrow> RequestUser
     \<Rightarrow> 'b OwnedEntity CrudRequest option \<Rightarrow> 'f UserEntity list \<Rightarrow> ('f, 'r) outcome" where
  "getOrdersByUserId orderService_getMany userId requestUser crudRequest db =
     (case findOne db userId of
        None \<Rightarrow> (Inl (EntityNotFoundException userId), db)
      | Some entity \<Rightarrow>
          if \<not> isActive entity then (Inl (EntityNotFoundException userId), db)
          else if \<not> hasPermissions (user_id entity) requestUser
            then (Inl ForbiddenException, db)
          else (case crudRequest of
                  None \<Rightarrow> (Inl TypeError, db)
                | Some r \<Rightarrow>
                    (Inr (orderService_getMany
                            (r\<lparr> search_and := search_and r @ [\<lambda>a. res_userId a = userId] \<rparr>)), db)))"

definition update ::
  "int \<Rightarrow> RequestUser \<Rightarrow> 'f UpdateUserPaylaod \<Rightarrow> 'f UserEntity list \<Rightarrow> ('f, unit) outcome" where
  "update userId requestUser updatedUserPayload db =
     (case findOne db userId of
        None \<Rightarrow> (Inl (EntityNotFoundException userId), db)
      | Some entity \<Rightarrow>
          if \<not> isActive entity then (Inl (EntityNotFoundException userId), db)
          else if \<not> hasPermissions (user_id entity) requestUser
            then (Inl ForbiddenException, db)
          else (Inr (), UserEntity_update userId (applyUpdateUserPaylaod updatedUserPayload) db))"

definition delete :: "int \<Rightarrow> RequestUser \<Rightarrow> 'f UserEntity list \<Rightarrow> ('f, unit) outcome" where
  "delete userId requestUser db =
     (case findOne db userId of
        None \<Rightarrow> (Inl (EntityNotFoundException userId), db)
      | Some entity \<Rightarrow>
          if \<not> isActive entity then (Inl (EntityNotFoundException userId), db)
          else if \<not> hasPermissions (user_id entity) requestUser
            then (Inl ForbiddenException, db)
          else (Inr (), UserEntity_delete userId db))"

definition disable :: "int \<Rightarrow> RequestUser \<Rightarrow> 'f UserEntity list \<Rightarrow> ('f, unit) outcome" where
  "disable userId requestUser db =
     (case findOne db userId of
        None \<Rightarrow> (Inl (EntityNotFoundException userId), db)
      | Some entity \<Rightarrow>
          if \<not> isActive entity then (Inl (EntityAlreadyDisabledException userId), db)
          else if \<not> hasPermissions (user_id entity) requestUser
            then (Inl ForbiddenException, db)
          else (Inr (), UserEntity_update userId (\<lambda>e. e\<lparr> isActive := False \<rparr>) db))"

definition enable :: "int \<Rightarrow> RequestUser \<Rightarrow> 'f UserEntity list \<Rightarrow> ('f, unit) outcome" where
  "enable userId requestUser db =
     (case findOne db userId of
        None \<Rightarrow> (Inl (EntityNotFoundException userId), db)
      | Some entity \<Rightarrow>
          if isActive entity then (Inl (EntityAlreadyEnabledException userId), db)
          else if \<not> hasPermissions (user_id entity) requestUser
            then (Inl ForbiddenException, db)
          else (Inr (), UserEntity_update userId (\<lambda>e. e\<lparr> isActive := True \<rparr>) db))"

section \<open>The shopping-cart controller\<close>

text \<open>
  Modelled from the spec: the decorator \<^verbatim>\<open>ProtectTo\<close> is not among the sources. It
  restricts a route to the callers whose role is one of the roles it lists; another caller is
  refused with the specification's Forbidden.
\<close>

definition ProtectTo :: "RolesEnum list \<Rightarrow> RequestUser \<Rightarrow> bool" where
  "ProtectTo allowed requestUser = (role requestUser \<in> set allowed)"

text \<open>
  The routes \<^verbatim>\<open>PATCH :id\<close>, \<^verbatim>\<open>PUT :id/disable\<close> and \<^verbatim>\<open>PUT :id/enable\<close>. The
  shopping-cart service is a collaborator given at construction, here the method each route
  calls; \<open>'db\<close> is whatever the service stores. The handlers take no \<^verbatim>\<open>@User()\<close>
  parameter: the caller is read by the guard alone.
\<close>

definition ShoppingCartController_update ::
  "(int \<Rightarrow> 'p \<Rightarrow> 'db \<Rightarrow> (error + unit) \<times> 'db) \<Rightarrow> RequestUser \<Rightarrow> int \<Rightarrow> 'p \<Rightarrow> 'db
     \<Rightarrow> (error + unit) \<times> 'db" where
  "ShoppingCartController_update shoppingCartService_update requestUser shoppingCartId
       updateShoppingCartPayload db =
     (if \<not> ProtectTo [Admin] requestUser then (Inl ForbiddenException, db)
      else shoppingCartService_update shoppingCartId updateShoppingCartPayload db)"

definition ShoppingCartController_disable ::
  "(int \<Rightarrow> 'db \<Rightarrow> (error + unit) \<times> 'db) \<Rightarrow> RequestUser \<Rightarrow> int \<Rightarrow> 'db
     \<Rightarrow> (error + unit) \<times> 'db" where
  "ShoppingCartController_disable shoppingCartService_disable requestUser shoppingCartId db =
     (if \<not> ProtectTo [Admin] requestUser then (Inl ForbiddenException, db)
      else shoppingCartService_disable shoppingCartId db)"

definition ShoppingCartController_enable ::
  "(int \<Rightarrow> 'db \<Rightarrow> (error + unit) \<times> 'db) \<Rightarrow> RequestUser \<Rightarrow> int \<Rightarrow> 'db
     \<Rightarrow> (error + unit) \<times> 'db" where
  "ShoppingCartController_enable shoppingCartService_enable requestUser shoppingCartId db =
     (if \<not> ProtectTo [Admin] requestUser then (Inl ForbiddenException, db)
      else shoppingCartService_enable shoppingCartId db)"

text \<open>
  Modelled from the spec: \<^verbatim>\<open>ShoppingCartService\<close> is not among the sources. The
  controller calls \<^verbatim>\<open>update(id, payload)\<close>, \<^verbatim>\<open>disable(id)\<close> and
  \<^verbatim>\<open>enable(id)\<close> with no caller, so the service applies the lifecycle guard of the
  specification and nothing else: not found when the cart is absent (or, for an update,
  inactive), a conflict on a redundant transition, and then the write.
\<close>

definition findCart :: "'b OwnedEntity list \<Rightarrow> int \<Rightarrow> 'b OwnedEntity option" where
  "findCart carts shoppingCartId = find (\<lambda>c. res_id c = shoppingCartId) carts"

definition writeCart ::
  "int \<Rightarrow> ('b OwnedEntity \<Rightarrow> 'b OwnedEntity) \<Rightarrow> 'b OwnedEntity list \<Rightarrow> 'b OwnedEntity list" where
  "writeCart shoppingCartId partial carts =
     map (\<lambda>c. if res_id c = shoppingCartId then partial c else c) carts"

definition ShoppingCartService_update ::
  "int \<Rightarrow> ('b \<Rightarrow> 'b) \<Rightarrow> 'b OwnedEntity list \<Rightarrow> (error + unit) \<times> 'b OwnedEntity list" where
  "ShoppingCartService_update shoppingCartId payload carts =
     (case findCart carts shoppingCartId of
        None \<Rightarrow> (Inl (EntityNotFoundException shoppingCartId), carts)
      | Some entity \<Rightarrow>
          if \<not> res_isActive entity then (Inl (EntityNotFoundException shoppingCartId), carts)
          else (Inr (), writeCart shoppingCartId (\<lambda>c. c\<lparr> body := payload (body c) \<rparr>) carts))"

definition ShoppingCartService_disable ::
  "int \<Rightarrow> 'b OwnedEntity list \<Rightarrow> (error + unit) \<times> 'b OwnedEntity list" where
  "ShoppingCartService_disable shoppingCartId carts =
     (case findCart carts shoppingCartId of
        None \<Rightarrow> (Inl (EntityNotFoundException shoppingCartId), carts)
      | Some entity \<Rightarrow>
          if \<not> res_isActive entity
            then (Inl (EntityAlreadyDisabledException shoppingCartId), carts)
          else (Inr (), writeCart shoppingCartId (\<lambda>c. c\<lparr> res_isActive := False \<rparr>) carts))"

definition ShoppingCartService_enable ::
  "int \<Rightarrow> 'b OwnedEntity list \<Rightarrow> (error + unit) \<times> 'b OwnedEntity list" where
  "ShoppingCartService_enable shoppingCartId carts =
     (case findCart carts shoppingCartId of
        None \<Rightarrow> (Inl (EntityNotFoundException shoppingCartId), carts)
      | Some entity \<Rightarrow>
          if res_isActive entity
            then (Inl (EntityAlreadyEnabledException shoppingCartId), carts)
          else (Inr (), writeCart shoppingCartId (\<lambda>c. c\<lparr> res_isActive := True \<rparr>) carts))"

section \<open>Example data\<close>

text \<open>
  A small table for the concrete instances below: user 1 is active, user 2 is disabled, and
  there is no user 3.
\<close>

definition user1 :: "string UserEntity" where
  "user1 = \<lparr> user_id = 1, isActive = True, password = ''hash-1'', roles = Some User,
             columns = ''ana'' \<rparr>"

definition user2 :: "string UserEntity" where
  "user2 = \<lparr> user_id = 2, isActive = False, password = ''hash-2'', roles = Some Seller,
             columns = ''bruno'' \<rparr>"

definition users0 :: "string UserEntity list" where
  "users0 = [user1, user2]"

definition caller :: "int \<Rightarrow> RolesEnum \<Rightarrow> RequestUser" where
  "caller i r = \<lparr> requestUser_id = i, role = r \<rparr>"

text \<open>Rows of a related table: two belong to user 1, one to user 2.\<close>

definition related0 :: "string OwnedEntity list" where
  "related0 =
     [\<lparr> res_id = 10, res_userId = 1, res_isActive = True, body = ''a'' \<rparr>,
      \<lparr> res_id = 11, res_userId = 2, res_isActive = True, body = ''b'' \<rparr>,
      \<lparr> res_id = 12, res_userId = 1, res_isActive = True, body = ''c'' \<rparr>]"

text \<open>A shopping cart of user 5.\<close>

definition carts0 :: "string OwnedEntity list" where
  "carts0 = [\<lparr> res_id = 7, res_userId = 5, res_isActive = True, body = ''cart'' \<rparr>]"

section \<open>Facts about the repository\<close>

lemma findOne_user_id: "findOne db k = Some e \<Longrightarrow> user_id e = k"
  unfolding findOne_def by (induction db) (auto split: if_splits)

lemma findOne_in_set: "findOne db k = Some e \<Longrightarrow> e \<in> set db"
  unfolding findOne_def by (induction db) (auto split: if_splits)

lemma findOne_UserEntity_update:
  assumes "\<And>e. user_id (f e) = user_id e"
  shows "findOne (UserEntity_update k f db) j
           = map_option (\<lambda>e. if user_id e = k then f e else e) (findOne db j)"
  unfolding findOne_def UserEntity_update_def using assms
  by (induction db) auto

lemma findOne_UserEntity_delete:
  "findOne (UserEntity_delete k db) j = (if j = k then None else findOne db j)"
  unfolding findOne_def UserEntity_delete_def
  by (induction db) auto

lemma user_id_less_generated_id: "e \<in> set db \<Longrightarrow> user_id e < generated_id db"
  unfolding generated_id_def by (induction db) auto

lemma findOne_append:
  "findOne (db @ [x]) j
     = (case findOne db j of Some e \<Rightarrow> Some e
        | None \<Rightarrow> if user_id x = j then Some x else None)"
  unfolding findOne_def by (induction db) auto

lemma findOne_generated_id: "findOne db (generated_id db) = None"
proof (cases "findOne db (generated_id db)")
  case None
  then show ?thesis .
next
  case (Some e)
  then have "e \<in> set db" and "user_id e = generated_id db"
    by (simp_all add: findOne_in_set findOne_user_id)
  then show ?thesis
    using user_id_less_generated_id [of e db] by simp
qed


lemma UserEntity_update_ids:
  assumes "\<And>e. user_id (f e) = user_id e"
  shows "map user_id (UserEntity_update k f db) = map user_id db"
  unfolding UserEntity_update_def using assms by (induction db) auto

subsection \<open>The branches of each operation\<close>

lemma get_absent:
  "findOne db k = None \<Longrightarrow> get k U None db = (Inl (EntityNotFoundException k), db)"
  by (simp add: get_def)

lemma get_inactive:
  "findOne db k = Some e \<Longrightarrow> \<not> isActive e
     \<Longrightarrow> get k U None db = (Inl (EntityNotFoundException k), db)"
  by (simp add: get_def)

lemma get_forbidden:
  "findOne db k = Some e \<Longrightarrow> isActive e \<Longrightarrow> \<not> hasPermissions (user_id e) U
     \<Longrightarrow> get k U None db = (Inl ForbiddenException, db)"
  by (simp add: get_def)

lemma get_permitted:
  "findOne db k = Some e \<Longrightarrow> isActive e \<Longrightarrow> hasPermissions (user_id e) U
     \<Longrightarrow> get k U None db = (Inr e, db)"
  by (simp add: get_def)

lemma update_absent:
  "findOne db k = None \<Longrightarrow> update k U p db = (Inl (EntityNotFoundException k), db)"
  by (simp add: update_def)

lemma update_inactive:
  "findOne db k = Some e \<Longrightarrow> \<not> isActive e
     \<Longrightarrow> update k U p db = (Inl (EntityNotFoundException k), db)"
  by (simp add: update_def)

lemma update_forbidden:
  "findOne db k = Some e \<Longrightarrow> isActive e \<Longrightarrow> \<not> hasPermissions (user_id e) U
     \<Longrightarrow> update k U p db = (Inl ForbiddenException, db)"
  by (simp add: update_def)

lemma update_permitted:
  "findOne db k = Some e \<Longrightarrow> isActive e \<Longrightarrow> hasPermissions (user_id e) U
     \<Longrightarrow> update k U p db = (Inr (), UserEntity_update k (applyUpdateUserPaylaod p) db)"
  by (simp add: update_def)

lemma delete_absent:
  "findOne db k = None \<Longrightarrow> delete k U db = (Inl (EntityNotFoundException k), db)"
  by (simp add: delete_def)

lemma delete_inactive:
  "findOne db k = Some e \<Longrightarrow> \<not> isActive e
     \<Longrightarrow> delete k U db = (Inl (EntityNotFoundException k), db)"
  by (simp add: delete_def)

lemma delete_forbidden:
  "findOne db k = Some e \<Longrightarrow> isActive e \<Longrightarrow> \<not> hasPermissions (user_id e) U
     \<Longrightarrow> delete k U db = (Inl ForbiddenException, db)"
  by (simp add: delete_def)

lemma delete_permitted:
  "findOne db k = Some e \<Longrightarrow> isActive e \<Longrightarrow> hasPermissions (user_id e) U
     \<Longrightarrow> delete k U db = (Inr (), UserEntity_delete k db)"
  by (simp add: delete_def)

lemma disable_absent:
  "findOne db k = None \<Longrightarrow> disable k U db = (Inl (EntityNotFoundException k), db)"
  by (simp add: disable_def)

lemma disable_inactive:
  "findOne db k = Some e \<Longrightarrow> \<not> isActive e
     \<Longrightarrow> disable k U db = (Inl (EntityAlreadyDisabledException k), db)"
  by (simp add: disable_def)

lemma disable_forbidden:
  "findOne db k = Some e \<Longrightarrow> isActive e \<Longrightarrow> \<not> hasPermissions (user_id e) U
     \<Longrightarrow> disable k U db = (Inl ForbiddenException, db)"
  by (simp add: disable_def)

lemma disable_permitted:
  "findOne db k = Some e \<Longrightarrow> isActive e \<Longrightarrow> hasPermissions (user_id e) U
     \<Longrightarrow> disable k U db = (Inr (), UserEntity_update k (\<lambda>e. e\<lparr> isActive := False \<rparr>) db)"
  by (simp add: disable_def)

lemma enable_absent:
  "findOne db k = None \<Longrightarrow> enable k U db = (Inl (EntityNotFoundException k), db)"
  by (simp add: enable_def)

lemma enable_active:
  "findOne db k = Some e \<Longrightarrow> isActive e
     \<Longrightarrow> enable k U db = (Inl (EntityAlreadyEnabledException k), db)"
  by (simp add: enable_def)

lemma enable_forbidden:
  "findOne db k = Some e \<Longrightarrow> \<not> isActive e \<Longrightarrow> \<not> hasPermissions (user_id e) U
     \<Longrightarrow> enable k U db = (Inl ForbiddenException, db)"
  by (simp add: enable_def)

lemma enable_permitted:
  "findOne db k = Some e \<Longrightarrow> \<not> isActive e \<Longrightarrow> hasPermissions (user_id e) U
     \<Longrightarrow> enable k U db = (Inr (), UserEntity_update k (\<lambda>e. e\<lparr> isActive := True \<rparr>) db)"
  by (simp add: enable_def)

lemma findOne_after_flag:
  "findOne db k = Some e
     \<Longrightarrow> findOne (UserEntity_update k (\<lambda>e. e\<lparr> isActive := b \<rparr>) db) j
           = (if j = k then Some (e\<lparr> isActive := b \<rparr>) else findOne db j)"
proof -
  assume h: "findOne db k = Some e"
  have id: "user_id e = k" using h by (rule findOne_user_id)
  show ?thesis
  proof (cases "j = k")
    case True
    then show ?thesis using h id by (simp add: findOne_UserEntity_update)
  next
    case False
    have "findOne (UserEntity_update k (\<lambda>e. e\<lparr> isActive := b \<rparr>) db) j = findOne db j"
    proof (cases "findOne db j")
      case None
      then show ?thesis by (simp add: findOne_UserEntity_update)
    next
      case (Some x)
      then have "user_id x = j" by (rule findOne_user_id)
      then show ?thesis using Some False by (simp add: findOne_UserEntity_update)
    qed
    then show ?thesis using False by simp
  qed
qed

section \<open>The ownership policy\<close>

text \<open>
  Claim C1. For every resource owner id and every caller, \<open>hasPermissions\<close> is true exactly
  when the owner id is the caller's id or the caller's role is Admin. It is a function of its
  two arguments alone: it takes no table and returns none.
\<close>

theorem hasPermissions_iff:
  "hasPermissions ownerId requestUser
     = (ownerId = requestUser_id requestUser \<or> role requestUser = Admin)"
  by (simp add: hasPermissions_def isAdminUser_def)

section \<open>Reading a user\<close>

text \<open>
  Claim C2. Let \<open>get userId U\<close> be called with no query options. When no row has the id,
  the call fails with not-found. When the row \<open>R\<close> has it, the call returns \<open>R\<close> exactly
  when \<open>R\<close> is active and the caller is \<open>R\<close> itself (a user is its own owner: the
  service passes \<^verbatim>\<open>entity.id\<close> as the owner id) or an Admin; it fails with not-found
  when \<open>R\<close> is inactive, and with forbidden when \<open>R\<close> is active and the caller is
  neither. The table is left as it was.
\<close>

theorem get_guard_sequence:
  "(findOne db userId = None \<longrightarrow>
      get userId U None db = (Inl (EntityNotFoundException userId), db)) \<and>
   (\<forall>R. findOne db userId = Some R \<longrightarrow>
      ((get userId U None db = (Inr R, db))
         = (isActive R \<and> (requestUser_id U = user_id R \<or> role U = Admin))) \<and>
      (\<not> isActive R \<longrightarrow> get userId U None db = (Inl (EntityNotFoundException userId), db)) \<and>
      (isActive R \<and> \<not> (requestUser_id U = user_id R \<or> role U = Admin) \<longrightarrow>
         get userId U None db = (Inl ForbiddenException, db)))"
  by (auto simp: get_def hasPermissions_def isAdminUser_def)

text \<open>
  The scenario of the specification: user 1 reads itself, another user is refused, an Admin
  reads it; the disabled user 2 and the absent user 3 are not found.
\<close>

theorem get_guard_sequence_witness:
  "get 1 (caller 1 User) None users0 = (Inr user1, users0) \<and>
   get 1 (caller 2 User) None users0 = (Inl ForbiddenException, users0) \<and>
   get 1 (caller 2 Admin) None users0 = (Inr user1, users0) \<and>
   get 2 (caller 2 Seller) None users0 = (Inl (EntityNotFoundException 2), users0) \<and>
   get 3 (caller 3 Admin) None users0 = (Inl (EntityNotFoundException 3), users0)"
proof -
  have f1: "findOne users0 1 = Some user1" and f2: "findOne users0 2 = Some user2"
    and f3: "findOne users0 3 = None"
    by (simp_all add: findOne_def users0_def user1_def user2_def)
  have a1: "isActive user1" and i1: "user_id user1 = 1" and a2: "\<not> isActive user2"
    by (simp_all add: user1_def user2_def)
  show ?thesis
    using get_guard_sequence [of users0 1 "caller 1 User"]
      get_guard_sequence [of users0 1 "caller 2 User"]
      get_guard_sequence [of users0 1 "caller 2 Admin"]
      get_guard_sequence [of users0 2 "caller 2 Seller"]
      get_guard_sequence [of users0 3 "caller 3 Admin"]
      f1 f2 f3 a1 i1 a2
    by (simp add: caller_def)
qed

section \<open>The lifecycle transitions\<close>

lemma disable_then:
  assumes f: "findOne db k = Some e" and a: "isActive e" and p: "hasPermissions (user_id e) U"
  shows "\<exists>db'. disable k U db = (Inr (), db') \<and>
           findOne db' k = Some (e\<lparr> isActive := False \<rparr>) \<and>
           (\<forall>j. j \<noteq> k \<longrightarrow> findOne db' j = findOne db j) \<and>
           (\<forall>V. get k V None db' = (Inl (EntityNotFoundException k), db')) \<and>
           (\<exists>db''. enable k U db' = (Inr (), db'') \<and> findOne db'' k = Some e)"
proof -
  define db' where "db' = UserEntity_update k (\<lambda>e. e\<lparr> isActive := False \<rparr>) db"
  have d: "disable k U db = (Inr (), db')"
    using f a p by (simp add: disable_permitted db'_def)
  have f': "findOne db' k = Some (e\<lparr> isActive := False \<rparr>)"
    using f by (simp add: findOne_after_flag db'_def)
  have others: "\<forall>j. j \<noteq> k \<longrightarrow> findOne db' j = findOne db j"
    using f by (simp add: findOne_after_flag db'_def)
  have g: "\<forall>V. get k V None db' = (Inl (EntityNotFoundException k), db')"
    using f' by (simp add: get_inactive)
  have en: "enable k U db' = (Inr (), UserEntity_update k (\<lambda>e. e\<lparr> isActive := True \<rparr>) db')"
    using f' p by (simp add: enable_permitted)
  have restored: "findOne (UserEntity_update k (\<lambda>e. e\<lparr> isActive := True \<rparr>) db') k = Some e"
    using f' a by (simp add: findOne_after_flag)
  show ?thesis using d f' others g en restored by blast
qed

lemma enable_then:
  assumes f: "findOne db k = Some e" and a: "\<not> isActive e" and p: "hasPermissions (user_id e) U"
  shows "\<exists>db'. enable k U db = (Inr (), db') \<and>
           findOne db' k = Some (e\<lparr> isActive := True \<rparr>) \<and>
           (\<forall>j. j \<noteq> k \<longrightarrow> findOne db' j = findOne db j)"
  using f a p by (simp add: enable_permitted findOne_after_flag)

text \<open>
  Claim C3. \<open>disable\<close> fails with not-found when no row has the id and with
  already-disabled when the row is inactive; for an active row and a permitted caller it
  succeeds and the row is stored with \<^verbatim>\<open>isActive\<close> false, every other id reading as
  before. \<open>enable\<close> fails with not-found when no row has the id and with already-enabled
  when the row is active; for an inactive row and a permitted caller it succeeds and the row
  is stored with \<^verbatim>\<open>isActive\<close> true. After a successful \<open>disable\<close>, \<open>get\<close> on the same
  id is not-found for every caller, and \<open>enable\<close> on the same id succeeds and restores the
  row. A redundant transition is a conflict and leaves the table as it was.
\<close>

theorem disable_enable_transitions:
  "(findOne db userId = None \<longrightarrow>
      disable userId U db = (Inl (EntityNotFoundException userId), db) \<and>
      enable userId U db = (Inl (EntityNotFoundException userId), db)) \<and>
   (\<forall>e. findOne db userId = Some e \<longrightarrow>
      (\<not> isActive e \<longrightarrow>
         disable userId U db = (Inl (EntityAlreadyDisabledException userId), db)) \<and>
      (isActive e \<longrightarrow>
         enable userId U db = (Inl (EntityAlreadyEnabledException userId), db)) \<and>
      (isActive e \<and> hasPermissions (user_id e) U \<longrightarrow>
         (\<exists>db'. disable userId U db = (Inr (), db') \<and>
            findOne db' userId = Some (e\<lparr> isActive := False \<rparr>) \<and>
            (\<forall>j. j \<noteq> userId \<longrightarrow> findOne db' j = findOne db j) \<and>
            (\<forall>V. get userId V None db' = (Inl (EntityNotFoundException userId), db')) \<and>
            (\<exists>db''. enable userId U db' = (Inr (), db'') \<and> findOne db'' userId = Some e))) \<and>
      (\<not> isActive e \<and> hasPermissions (user_id e) U \<longrightarrow>
         (\<exists>db'. enable userId U db = (Inr (), db') \<and>
            findOne db' userId = Some (e\<lparr> isActive := True \<rparr>) \<and>
            (\<forall>j. j \<noteq> userId \<longrightarrow> findOne db' j = findOne db j))))"
proof (intro conjI impI allI)
  fix e
  assume "findOne db userId = Some e" and "isActive e \<and> hasPermissions (user_id e) U"
  then show "\<exists>db'. disable userId U db = (Inr (), db') \<and>
            findOne db' userId = Some (e\<lparr> isActive := False \<rparr>) \<and>
            (\<forall>j. j \<noteq> userId \<longrightarrow> findOne db' j = findOne db j) \<and>
            (\<forall>V. get userId V None db' = (Inl (EntityNotFoundException userId), db')) \<and>
            (\<exists>db''. enable userId U db' = (Inr (), db'') \<and> findOne db'' userId = Some e)"
    using disable_then [of db userId e U] by blast
next
  fix e
  assume "findOne db userId = Some e" and "\<not> isActive e \<and> hasPermissions (user_id e) U"
  then show "\<exists>db'. enable userId U db = (Inr (), db') \<and>
            findOne db' userId = Some (e\<lparr> isActive := True \<rparr>) \<and>
            (\<forall>j. j \<noteq> userId \<longrightarrow> findOne db' j = findOne db j)"
    using enable_then [of db userId e U] by blast
qed (simp_all add: disable_absent enable_absent disable_inactive enable_active)


text \<open>What the example table holds.\<close>

lemma users0_rows:
  "findOne users0 1 = Some user1" "findOne users0 2 = Some user2" "findOne users0 3 = None"
  "isActive user1" "\<not> isActive user2" "user_id user1 = 1" "user_id user2 = 2"
  by (simp_all add: findOne_def users0_def user1_def user2_def)

text \<open>
  On the example table: user 3 is absent, user 2 is already disabled, user 1 is already
  enabled; user 1 disables itself, is then invisible to \<open>get\<close>, and enables itself again;
  user 2 enables itself.
\<close>

theorem disable_enable_transitions_witness:
  "disable 3 (caller 9 Admin) users0 = (Inl (EntityNotFoundException 3), users0) \<and>
   enable 3 (caller 9 Admin) users0 = (Inl (EntityNotFoundException 3), users0) \<and>
   disable 2 (caller 2 Seller) users0 = (Inl (EntityAlreadyDisabledException 2), users0) \<and>
   enable 1 (caller 1 User) users0 = (Inl (EntityAlreadyEnabledException 1), users0) \<and>
   (\<exists>db'. disable 1 (caller 1 User) users0 = (Inr (), db') \<and>
      findOne db' 1 = Some (user1\<lparr> isActive := False \<rparr>) \<and>
      get 1 (caller 1 User) None db' = (Inl (EntityNotFoundException 1), db') \<and>
      (\<exists>db''. enable 1 (caller 1 User) db' = (Inr (), db'') \<and> findOne db'' 1 = Some user1)) \<and>
   (\<exists>db'. enable 2 (caller 2 Seller) users0 = (Inr (), db') \<and>
      findOne db' 2 = Some (user2\<lparr> isActive := True \<rparr>))"
proof -
  have p1: "isActive user1 \<and> hasPermissions (user_id user1) (caller 1 User)"
    and p2: "\<not> isActive user2 \<and> hasPermissions (user_id user2) (caller 2 Seller)"
    by (simp_all add: hasPermissions_def caller_def users0_rows)
  note absent = disable_enable_transitions [of users0 3 "caller 9 Admin", THEN conjunct1,
      THEN mp, OF users0_rows(3)]
  note row2 = disable_enable_transitions [of users0 2 "caller 2 Seller", THEN conjunct2,
      THEN spec, THEN mp, OF users0_rows(2)]
  note row1 = disable_enable_transitions [of users0 1 "caller 1 User", THEN conjunct2,
      THEN spec, THEN mp, OF users0_rows(1)]
  have c3: "disable 2 (caller 2 Seller) users0 = (Inl (EntityAlreadyDisabledException 2), users0)"
    by (rule row2 [THEN conjunct1, THEN mp, OF users0_rows(5)])
  have c4: "enable 1 (caller 1 User) users0 = (Inl (EntityAlreadyEnabledException 1), users0)"
    by (rule row1 [THEN conjunct2, THEN conjunct1, THEN mp, OF users0_rows(4)])
  obtain db' where all1: "disable 1 (caller 1 User) users0 = (Inr (), db') \<and>
      findOne db' 1 = Some (user1\<lparr> isActive := False \<rparr>) \<and>
      (\<forall>j. j \<noteq> 1 \<longrightarrow> findOne db' j = findOne users0 j) \<and>
      (\<forall>V. get 1 V None db' = (Inl (EntityNotFoundException 1), db')) \<and>
      (\<exists>db''. enable 1 (caller 1 User) db' = (Inr (), db'') \<and> findOne db'' 1 = Some user1)"
    using row1 [THEN conjunct2, THEN conjunct2, THEN conjunct1, THEN mp, OF p1]
    by (rule exE)
  note d = all1 [THEN conjunct1] all1 [THEN conjunct2, THEN conjunct1]
    all1 [THEN conjunct2, THEN conjunct2, THEN conjunct2, THEN conjunct1]
    all1 [THEN conjunct2, THEN conjunct2, THEN conjunct2, THEN conjunct2]
  have c5: "\<exists>db'. disable 1 (caller 1 User) users0 = (Inr (), db') \<and>
      findOne db' 1 = Some (user1\<lparr> isActive := False \<rparr>) \<and>
      get 1 (caller 1 User) None db' = (Inl (EntityNotFoundException 1), db') \<and>
      (\<exists>db''. enable 1 (caller 1 User) db' = (Inr (), db'') \<and> findOne db'' 1 = Some user1)"
    by (rule exI [of _ db']) (simp add: d)
  obtain db2 where all2: "enable 2 (caller 2 Seller) users0 = (Inr (), db2) \<and>
      findOne db2 2 = Some (user2\<lparr> isActive := True \<rparr>) \<and>
      (\<forall>j. j \<noteq> 2 \<longrightarrow> findOne db2 j = findOne users0 j)"
    using row2 [THEN conjunct2, THEN conjunct2, THEN conjunct2, THEN mp, OF p2]
    by (rule exE)
  note e = all2 [THEN conjunct1] all2 [THEN conjunct2, THEN conjunct1]
  have c6: "\<exists>db'. enable 2 (caller 2 Seller) users0 = (Inr (), db') \<and>
      findOne db' 2 = Some (user2\<lparr> isActive := True \<rparr>)"
    by (rule exI [of _ db2]) (simp add: e)
  show ?thesis
    by (intro conjI; rule absent [THEN conjunct1] absent [THEN conjunct2] c3 c4 c5 c6)
qed

section \<open>The order of the guards\<close>

text \<open>
  Claim C4. In \<open>get\<close>, \<open>update\<close>, \<open>delete\<close>, \<open>disable\<close> and \<open>enable\<close> the ownership
  check comes after the existence and state checks and before the write. For an absent id
  every caller gets not-found. For an inactive row every caller, permitted or not, gets
  already-disabled from \<open>disable\<close> and not-found from \<open>get\<close>, \<open>update\<close> and
  \<open>delete\<close>; for an active row every caller gets already-enabled from \<open>enable\<close>. A
  caller without permission never changes the table, and gets forbidden once the state check
  has passed. Conversely, forbidden is only ever the answer for a row that exists, is in the
  state the operation needs, and is not the caller's.
\<close>

theorem ownership_check_order:
  "(findOne db userId = None \<longrightarrow>
      (\<forall>U. fst (get userId U None db) = Inl (EntityNotFoundException userId) \<and>
           fst (update userId U p db) = Inl (EntityNotFoundException userId) \<and>
           fst (delete userId U db) = Inl (EntityNotFoundException userId) \<and>
           fst (disable userId U db) = Inl (EntityNotFoundException userId) \<and>
           fst (enable userId U db) = Inl (EntityNotFoundException userId))) \<and>
   (\<forall>e. findOne db userId = Some e \<and> \<not> isActive e \<longrightarrow>
      (\<forall>U. fst (disable userId U db) = Inl (EntityAlreadyDisabledException userId) \<and>
           fst (get userId U None db) = Inl (EntityNotFoundException userId) \<and>
           fst (update userId U p db) = Inl (EntityNotFoundException userId) \<and>
           fst (delete userId U db) = Inl (EntityNotFoundException userId))) \<and>
   (\<forall>e. findOne db userId = Some e \<and> isActive e \<longrightarrow>
      (\<forall>U. fst (enable userId U db) = Inl (EntityAlreadyEnabledException userId))) \<and>
   (\<forall>e. findOne db userId = Some e \<and> \<not> hasPermissions (user_id e) U \<longrightarrow>
      snd (get userId U None db) = db \<and> snd (update userId U p db) = db \<and>
      snd (delete userId U db) = db \<and> snd (disable userId U db) = db \<and>
      snd (enable userId U db) = db \<and>
      (isActive e \<longrightarrow>
         fst (get userId U None db) = Inl ForbiddenException \<and>
         fst (update userId U p db) = Inl ForbiddenException \<and>
         fst (delete userId U db) = Inl ForbiddenException \<and>
         fst (disable userId U db) = Inl ForbiddenException) \<and>
      (\<not> isActive e \<longrightarrow> fst (enable userId U db) = Inl ForbiddenException)) \<and>
   (fst (get userId U None db) = Inl ForbiddenException \<or>
    fst (update userId U p db) = Inl ForbiddenException \<or>
    fst (delete userId U db) = Inl ForbiddenException \<or>
    fst (disable userId U db) = Inl ForbiddenException \<longrightarrow>
      (\<exists>e. findOne db userId = Some e \<and> isActive e \<and> \<not> hasPermissions (user_id e) U)) \<and>
   (fst (enable userId U db) = Inl ForbiddenException \<longrightarrow>
      (\<exists>e. findOne db userId = Some e \<and> \<not> isActive e \<and> \<not> hasPermissions (user_id e) U))"
proof (intro conjI)
  show "findOne db userId = None \<longrightarrow>
      (\<forall>U. fst (get userId U None db) = Inl (EntityNotFoundException userId) \<and>
           fst (update userId U p db) = Inl (EntityNotFoundException userId) \<and>
           fst (delete userId U db) = Inl (EntityNotFoundException userId) \<and>
           fst (disable userId U db) = Inl (EntityNotFoundException userId) \<and>
           fst (enable userId U db) = Inl (EntityNotFoundException userId))"
    by (simp add: get_absent update_absent delete_absent disable_absent enable_absent)
  show "\<forall>e. findOne db userId = Some e \<and> \<not> isActive e \<longrightarrow>
      (\<forall>U. fst (disable userId U db) = Inl (EntityAlreadyDisabledException userId) \<and>
           fst (get userId U None db) = Inl (EntityNotFoundException userId) \<and>
           fst (update userId U p db) = Inl (EntityNotFoundException userId) \<and>
           fst (delete userId U db) = Inl (EntityNotFoundException userId))"
    by (simp add: get_inactive update_inactive delete_inactive disable_inactive)
  show "\<forall>e. findOne db userId = Some e \<and> isActive e \<longrightarrow>
      (\<forall>U. fst (enable userId U db) = Inl (EntityAlreadyEnabledException userId))"
    by (simp add: enable_active)
  show "\<forall>e. findOne db userId = Some e \<and> \<not> hasPermissions (user_id e) U \<longrightarrow>
      snd (get userId U None db) = db \<and> snd (update userId U p db) = db \<and>
      snd (delete userId U db) = db \<and> snd (disable userId U db) = db \<and>
      snd (enable userId U db) = db \<and>
      (isActive e \<longrightarrow>
         fst (get userId U None db) = Inl ForbiddenException \<and>
         fst (update userId U p db) = Inl ForbiddenException \<and>
         fst (delete userId U db) = Inl ForbiddenException \<and>
         fst (disable userId U db) = Inl ForbiddenException) \<and>
      (\<not> isActive e \<longrightarrow> fst (enable userId U db) = Inl ForbiddenException)"
    by (simp add: get_def update_def delete_def disable_def enable_def)
  show "fst (get userId U None db) = Inl ForbiddenException \<or>
    fst (update userId U p db) = Inl ForbiddenException \<or>
    fst (delete userId U db) = Inl ForbiddenException \<or>
    fst (disable userId U db) = Inl ForbiddenException \<longrightarrow>
      (\<exists>e. findOne db userId = Some e \<and> isActive e \<and> \<not> hasPermissions (user_id e) U)"
    by (auto simp: get_def update_def delete_def disable_def split: option.splits if_splits)
  show "fst (enable userId U db) = Inl ForbiddenException \<longrightarrow>
      (\<exists>e. findOne db userId = Some e \<and> \<not> isActive e \<and> \<not> hasPermissions (user_id e) U)"
    by (auto simp: enable_def split: option.splits if_splits)
qed

text \<open>
  User 4, who is not an Admin, on the example table: not-found for the absent user 3, the
  conflicts for users 2 and 1 in spite of the missing permission, and forbidden with the
  table unchanged where the state check passes.
\<close>

theorem ownership_check_order_witness:
  "fst (get 3 (caller 4 User) None users0) = Inl (EntityNotFoundException 3) \<and>
   fst (update 3 (caller 4 User) \<lparr> patch_password = None, patch_roles = None, patch_fields = (\<lambda>c. c) \<rparr> users0)
     = Inl (EntityNotFoundException 3) \<and>
   fst (delete 3 (caller 4 User) users0) = Inl (EntityNotFoundException 3) \<and>
   fst (disable 3 (caller 4 User) users0) = Inl (EntityNotFoundException 3) \<and>
   fst (enable 3 (caller 4 User) users0) = Inl (EntityNotFoundException 3) \<and>
   fst (disable 2 (caller 4 User) users0) = Inl (EntityAlreadyDisabledException 2) \<and>
   fst (enable 1 (caller 4 User) users0) = Inl (EntityAlreadyEnabledException 1) \<and>
   fst (disable 1 (caller 4 User) users0) = Inl ForbiddenException \<and>
   snd (disable 1 (caller 4 User) users0) = users0 \<and>
   fst (enable 2 (caller 4 User) users0) = Inl ForbiddenException \<and>
   snd (enable 2 (caller 4 User) users0) = users0"
proof -
  let ?p = "\<lparr> patch_password = None, patch_roles = None, patch_fields = (\<lambda>c::string. c) \<rparr>"
  have n1: "\<not> hasPermissions (user_id user1) (caller 4 User)"
    and n2: "\<not> hasPermissions (user_id user2) (caller 4 User)"
    by (simp_all add: hasPermissions_def isAdminUser_def caller_def users0_rows)
  note t3 = ownership_check_order [of users0 3 ?p "caller 4 User"]
  note t2 = ownership_check_order [of users0 2 ?p "caller 4 User"]
  note t1 = ownership_check_order [of users0 1 ?p "caller 4 User"]
  note absent = t3 [THEN conjunct1, THEN mp, OF users0_rows(3), THEN spec, of "caller 4 User"]
  note inactive2 = t2 [THEN conjunct2, THEN conjunct1, THEN spec, THEN mp,
      OF conjI [OF users0_rows(2) users0_rows(5)], THEN spec, of "caller 4 User"]
  note active1 = t1 [THEN conjunct2, THEN conjunct2, THEN conjunct1, THEN spec, THEN mp,
      OF conjI [OF users0_rows(1) users0_rows(4)], THEN spec, of "caller 4 User"]
  note refused1 = t1 [THEN conjunct2, THEN conjunct2, THEN conjunct2, THEN conjunct1,
      THEN spec, THEN mp, OF conjI [OF users0_rows(1) n1]]
  note refused2 = t2 [THEN conjunct2, THEN conjunct2, THEN conjunct2, THEN conjunct1,
      THEN spec, THEN mp, OF conjI [OF users0_rows(2) n2]]
  have f1: "fst (disable 1 (caller 4 User) users0) = Inl ForbiddenException"
    using refused1 users0_rows(4) by simp
  have s1: "snd (disable 1 (caller 4 User) users0) = users0"
    using refused1 by simp
  have f2: "fst (enable 2 (caller 4 User) users0) = Inl ForbiddenException"
    using refused2 users0_rows(5) by simp
  have s2: "snd (enable 2 (caller 4 User) users0) = users0"
    using refused2 by simp
  show ?thesis
    using absent inactive2 active1 f1 s1 f2 s2 by simp
qed

section \<open>Failed calls\<close>

text \<open>
  Claim C8. When \<open>get\<close> (with or without query options), a listing of related resources,
  \<open>update\<close>, \<open>delete\<close>, \<open>disable\<close> or \<open>enable\<close> fails, with whatever exception, the
  table after the call is the table before it.
\<close>

theorem failed_call_leaves_table:
  "(fst (get userId U crudRequest db) = Inl err \<longrightarrow> snd (get userId U crudRequest db) = db) \<and>
   (fst (getAddressesByUserId addressService_getMany userId U relatedRequest db) = Inl err \<longrightarrow>
      snd (getAddressesByUserId addressService_getMany userId U relatedRequest db) = db) \<and>
   (fst (getProductsByUserId productService_getMany userId relatedRequest db) = Inl err \<longrightarrow>
      snd (getProductsByUserId productService_getMany userId relatedRequest db) = db) \<and>
   (fst (getOrdersByUserId orderService_getMany userId U relatedRequest db) = Inl err \<longrightarrow>
      snd (getOrdersByUserId orderService_getMany userId U relatedRequest db) = db) \<and>
   (fst (update userId U p db) = Inl err \<longrightarrow> snd (update userId U p db) = db) \<and>
   (fst (delete userId U db) = Inl err \<longrightarrow> snd (delete userId U db) = db) \<and>
   (fst (disable userId U db) = Inl err \<longrightarrow> snd (disable userId U db) = db) \<and>
   (fst (enable userId U db) = Inl err \<longrightarrow> snd (enable userId U db) = db)"
proof (intro conjI)
  show "fst (get userId U crudRequest db) = Inl err \<longrightarrow> snd (get userId U crudRequest db) = db"
    by (simp add: get_def Let_def split: option.splits)
  show "fst (getAddressesByUserId addressService_getMany userId U relatedRequest db) = Inl err \<longrightarrow>
      snd (getAddressesByUserId addressService_getMany userId U relatedRequest db) = db"
    by (simp add: getAddressesByUserId_def split: option.splits)
  show "fst (getProductsByUserId productService_getMany userId relatedRequest db) = Inl err \<longrightarrow>
      snd (getProductsByUserId productService_getMany userId relatedRequest db) = db"
    by (simp add: getProductsByUserId_def split: option.splits)
  show "fst (getOrdersByUserId orderService_getMany userId U relatedRequest db) = Inl err \<longrightarrow>
      snd (getOrdersByUserId orderService_getMany userId U relatedRequest db) = db"
    by (simp add: getOrdersByUserId_def split: option.splits)
  show "fst (update userId U p db) = Inl err \<longrightarrow> snd (update userId U p db) = db"
    by (simp add: update_def split: option.splits)
  show "fst (delete userId U db) = Inl err \<longrightarrow> snd (delete userId U db) = db"
    by (simp add: delete_def split: option.splits)
  show "fst (disable userId U db) = Inl err \<longrightarrow> snd (disable userId U db) = db"
    by (simp add: disable_def split: option.splits)
  show "fst (enable userId U db) = Inl err \<longrightarrow> snd (enable userId U db) = db"
    by (simp add: enable_def split: option.splits)
qed

text \<open>
  Failing calls of each operation on the example table, each with its exception and the
  table it leaves.
\<close>

theorem failed_call_leaves_table_witness:
  "get 1 (caller 4 User) None users0 = (Inl ForbiddenException, users0) \<and>
   getAddressesByUserId (getMany related0) 1 (caller 4 User) (Some \<lparr> search_and = [] \<rparr>) users0
     = (Inl ForbiddenException, users0) \<and>
   getProductsByUserId (getMany related0) 2 (Some \<lparr> search_and = [] \<rparr>) users0
     = (Inl (EntityNotFoundException 2), users0) \<and>
   getOrdersByUserId (getMany related0) 1 (caller 4 User) (Some \<lparr> search_and = [] \<rparr>) users0
     = (Inl ForbiddenException, users0) \<and>
   update 1 (caller 4 User) \<lparr> patch_password = Some ''x'', patch_roles = Some Admin, patch_fields = (\<lambda>c. c) \<rparr> users0
     = (Inl ForbiddenException, users0) \<and>
   delete 1 (caller 4 User) users0 = (Inl ForbiddenException, users0) \<and>
   disable 2 (caller 2 Seller) users0 = (Inl (EntityAlreadyDisabledException 2), users0) \<and>
   enable 1 (caller 1 User) users0 = (Inl (EntityAlreadyEnabledException 1), users0)"
proof -
  let ?p = "\<lparr> patch_password = Some ''x'', patch_roles = Some Admin, patch_fields = (\<lambda>c::string. c) \<rparr>"
  let ?r = "Some \<lparr> search_and = ([] :: (string OwnedEntity \<Rightarrow> bool) list) \<rparr>"
  have n1: "\<not> hasPermissions (user_id user1) (caller 4 User)"
    by (simp add: hasPermissions_def isAdminUser_def caller_def users0_rows)
  have e1: "fst (get 1 (caller 4 User) None users0) = Inl ForbiddenException"
    using users0_rows n1 by (simp add: get_def)
  have e2: "fst (getAddressesByUserId (getMany related0) 1 (caller 4 User) ?r users0)
              = Inl ForbiddenException"
    using users0_rows n1 by (simp add: getAddressesByUserId_def)
  have e3: "fst (getProductsByUserId (getMany related0) 2 ?r users0)
              = Inl (EntityNotFoundException 2)"
    using users0_rows by (simp add: getProductsByUserId_def)
  have e4: "fst (getOrdersByUserId (getMany related0) 1 (caller 4 User) ?r users0)
              = Inl ForbiddenException"
    using users0_rows n1 by (simp add: getOrdersByUserId_def)
  have e5: "fst (update 1 (caller 4 User) ?p users0) = Inl ForbiddenException"
    using users0_rows n1 by (simp add: update_def)
  have e6: "fst (delete 1 (caller 4 User) users0) = Inl ForbiddenException"
    using users0_rows n1 by (simp add: delete_def)
  have e7: "fst (disable 2 (caller 2 Seller) users0) = Inl (EntityAlreadyDisabledException 2)"
    using users0_rows by (simp add: disable_def)
  have e8: "fst (enable 1 (caller 1 User) users0) = Inl (EntityAlreadyEnabledException 1)"
    using users0_rows by (simp add: enable_def)
  note a = failed_call_leaves_table [where db = users0 and userId = 1 and U = "caller 4 User"
      and crudRequest = None and err = ForbiddenException and p = ?p and relatedRequest = ?r
      and addressService_getMany = "getMany related0"
      and orderService_getMany = "getMany related0"]
  note b = failed_call_leaves_table [where db = users0 and userId = 2 and U = "caller 2 Seller"
      and err = "EntityNotFoundException 2" and relatedRequest = ?r
      and productService_getMany = "getMany related0"]
  note c = failed_call_leaves_table [where db = users0 and userId = 2 and U = "caller 2 Seller"
      and err = "EntityAlreadyDisabledException 2"]
  note d = failed_call_leaves_table [where db = users0 and userId = 1 and U = "caller 1 User"
      and err = "EntityAlreadyEnabledException 1"]
  have s1: "snd (get 1 (caller 4 User) None users0) = users0"
    using a e1 by blast
  have s2: "snd (getAddressesByUserId (getMany related0) 1 (caller 4 User) ?r users0) = users0"
    using a e2 by blast
  have s3: "snd (getProductsByUserId (getMany related0) 2 ?r users0) = users0"
    using b e3 by blast
  have s4: "snd (getOrdersByUserId (getMany related0) 1 (caller 4 User) ?r users0) = users0"
    using a e4 by blast
  have s5: "snd (update 1 (caller 4 User) ?p users0) = users0"
    using a e5 by blast
  have s6: "snd (delete 1 (caller 4 User) users0) = users0"
    using a e6 by blast
  have s7: "snd (disable 2 (caller 2 Seller) users0) = users0"
    using c e7 by blast
  have s8: "snd (enable 1 (caller 1 User) users0) = users0"
    using d e8 by blast
  show ?thesis
    using e1 e2 e3 e4 e5 e6 e7 e8 s1 s2 s3 s4 s5 s6 s7 s8
    by (simp add: prod_eq_iff)
qed

section \<open>Listings of related resources\<close>

text \<open>
  The listings of addresses and orders follow the guards of \<open>get\<close> and then hand the
  request, with the condition on the owner added, to the service of the related kind.
\<close>

lemma getAddressesByUserId_permitted:
  "findOne db k = Some e \<Longrightarrow> isActive e \<Longrightarrow> hasPermissions (user_id e) U
     \<Longrightarrow> getAddressesByUserId svc k U (Some r) db
           = (Inr (svc (r\<lparr> search_and := search_and r @ [\<lambda>a. res_userId a = k] \<rparr>)), db)"
  by (simp add: getAddressesByUserId_def)

lemma getOrdersByUserId_permitted:
  "findOne db k = Some e \<Longrightarrow> isActive e \<Longrightarrow> hasPermissions (user_id e) U
     \<Longrightarrow> getOrdersByUserId svc k U (Some r) db
           = (Inr (svc (r\<lparr> search_and := search_and r @ [\<lambda>a. res_userId a = k] \<rparr>)), db)"
  by (simp add: getOrdersByUserId_def)

lemma getAddressesByUserId_forbidden:
  "findOne db k = Some e \<Longrightarrow> isActive e \<Longrightarrow> \<not> hasPermissions (user_id e) U
     \<Longrightarrow> getAddressesByUserId svc k U r db = (Inl ForbiddenException, db)"
  by (simp add: getAddressesByUserId_def)

lemma getOrdersByUserId_forbidden:
  "findOne db k = Some e \<Longrightarrow> isActive e \<Longrightarrow> \<not> hasPermissions (user_id e) U
     \<Longrightarrow> getOrdersByUserId svc k U r db = (Inl ForbiddenException, db)"
  by (simp add: getOrdersByUserId_def)

text \<open>The listing of products has no caller to test: an active user is all it asks for.\<close>

lemma getProductsByUserId_active:
  "findOne db k = Some e \<Longrightarrow> isActive e
     \<Longrightarrow> getProductsByUserId svc k (Some r) db
           = (Inr (svc (r\<lparr> search_and := search_and r @ [\<lambda>a. res_userId a = k] \<rparr>)), db)"
  by (simp add: getProductsByUserId_def)

text \<open>Every row of the delegated listing belongs to the user.\<close>

lemma getMany_owner:
  "x \<in> set (getMany table (r\<lparr> search_and := search_and r @ [\<lambda>a. res_userId a = k] \<rparr>))
     \<Longrightarrow> res_userId x = k"
  by (simp add: getMany_def)

text \<open>
  Claim C5. The listings of a user's addresses and orders refuse, with forbidden, a caller
  who is neither that user nor an Admin; the listing of a user's products takes no caller and
  returns the products of the active user 1 to whoever asks. On the example table, for a
  request made by user 2, who is not an Admin: the two products of user 1 are listed, while
  the addresses and the orders of user 1 are refused.
\<close>

theorem getProductsByUserId_skips_ownership:
  "getProductsByUserId (getMany related0) 1 (Some \<lparr> search_and = [] \<rparr>) users0
     = (Inr [\<lparr> res_id = 10, res_userId = 1, res_isActive = True, body = ''a'' \<rparr>,
             \<lparr> res_id = 12, res_userId = 1, res_isActive = True, body = ''c'' \<rparr>], users0) \<and>
   getAddressesByUserId (getMany related0) 1 (caller 2 User) (Some \<lparr> search_and = [] \<rparr>) users0
     = (Inl ForbiddenException, users0) \<and>
   getOrdersByUserId (getMany related0) 1 (caller 2 User) (Some \<lparr> search_and = [] \<rparr>) users0
     = (Inl ForbiddenException, users0)"
proof -
  have n: "\<not> hasPermissions (user_id user1) (caller 2 User)"
    by (simp add: hasPermissions_def isAdminUser_def caller_def users0_rows)
  have l: "getMany related0 \<lparr> search_and = [\<lambda>a. res_userId a = 1] \<rparr>
             = [\<lparr> res_id = 10, res_userId = 1, res_isActive = True, body = ''a'' \<rparr>,
                \<lparr> res_id = 12, res_userId = 1, res_isActive = True, body = ''c'' \<rparr>]"
    by (simp add: getMany_def related0_def)
  show ?thesis
    using users0_rows n l
    by (simp add: getProductsByUserId_active getAddressesByUserId_forbidden
        getOrdersByUserId_forbidden)
qed

section \<open>Updating\<close>

lemma applyUpdateUserPaylaod_frame:
  "user_id (applyUpdateUserPaylaod p e) = user_id e"
  "isActive (applyUpdateUserPaylaod p e) = isActive e"
  by (simp_all add: applyUpdateUserPaylaod_def)

lemma UserEntity_update_flags:
  assumes "\<And>e. isActive (f e) = isActive e"
  shows "map isActive (UserEntity_update k f db) = map isActive db"
  unfolding UserEntity_update_def using assms by (induction db) auto

lemma update_ids: "map user_id (snd (update k U p db)) = map user_id db"
  by (simp add: update_def UserEntity_update_ids applyUpdateUserPaylaod_frame
      split: option.splits)

lemma update_flags: "map isActive (snd (update k U p db)) = map isActive db"
  by (simp add: update_def UserEntity_update_flags applyUpdateUserPaylaod_frame
      split: option.splits)

lemma disable_ids: "map user_id (snd (disable k U db)) = map user_id db"
  by (simp add: disable_def UserEntity_update_ids split: option.splits)

lemma enable_ids: "map user_id (snd (enable k U db)) = map user_id db"
  by (simp add: enable_def UserEntity_update_ids split: option.splits)

lemma delete_rows: "snd (delete k U db) = db \<or> snd (delete k U db) = filter (\<lambda>e. user_id e \<noteq> k) db"
  by (simp add: delete_def UserEntity_delete_def split: option.splits)

lemma create_rows: "snd (create enc c db) = db @ [fst (create enc c db)]"
  by (simp add: create_def save_def Let_def)

lemma update_stored:
  assumes f: "findOne db k = Some e" and a: "isActive e" and p: "hasPermissions (user_id e) U"
  shows "update k U q db = (Inr (), UserEntity_update k (applyUpdateUserPaylaod q) db)"
    and "findOne (UserEntity_update k (applyUpdateUserPaylaod q) db) k
           = Some (applyUpdateUserPaylaod q e)"
proof -
  show "update k U q db = (Inr (), UserEntity_update k (applyUpdateUserPaylaod q) db)"
    using f a p by (rule update_permitted)
  have "user_id e = k" using f by (rule findOne_user_id)
  then show "findOne (UserEntity_update k (applyUpdateUserPaylaod q) db) k
           = Some (applyUpdateUserPaylaod q e)"
    using f by (simp add: findOne_UserEntity_update applyUpdateUserPaylaod_frame)
qed

text \<open>
  Claim C6. For an active row and a permitted caller, \<open>update\<close> succeeds and stores the
  patched row, whose id (which is also its owner id) and \<^verbatim>\<open>isActive\<close> flag are those of
  the row before. Whatever the outcome, \<open>update\<close> leaves the id and the flag of every row
  of the table as they were. No other operation reassigns an id either: \<open>disable\<close> and
  \<open>enable\<close> keep the ids of all rows, \<open>delete\<close> only removes rows, and \<open>create\<close> only
  appends one. The patch of \<^verbatim>\<open>UpdateOrderPayload\<close> leaves the id, the owner and the flag
  of an order as they were.
\<close>

theorem update_keeps_identity:
  "(\<forall>e. findOne db userId = Some e \<and> isActive e \<and> hasPermissions (user_id e) U \<longrightarrow>
      (\<exists>db'. update userId U p db = (Inr (), db') \<and>
         findOne db' userId = Some (applyUpdateUserPaylaod p e) \<and>
         user_id (applyUpdateUserPaylaod p e) = user_id e \<and>
         isActive (applyUpdateUserPaylaod p e) = isActive e)) \<and>
   map user_id (snd (update userId U p db)) = map user_id db \<and>
   map isActive (snd (update userId U p db)) = map isActive db \<and>
   map user_id (snd (disable userId U db)) = map user_id db \<and>
   map user_id (snd (enable userId U db)) = map user_id db \<and>
   (snd (delete userId U db) = db \<or>
    snd (delete userId U db) = filter (\<lambda>e. user_id e \<noteq> userId) db) \<and>
   snd (create encryptPassword c db) = db @ [fst (create encryptPassword c db)] \<and>
   res_id (applyUpdateOrderPayload q ord) = res_id ord \<and>
   res_userId (applyUpdateOrderPayload q ord) = res_userId ord \<and>
   res_isActive (applyUpdateOrderPayload q ord) = res_isActive ord"
proof (intro conjI allI impI)
  fix e
  assume "findOne db userId = Some e \<and> isActive e \<and> hasPermissions (user_id e) U"
  then show "\<exists>db'. update userId U p db = (Inr (), db') \<and>
         findOne db' userId = Some (applyUpdateUserPaylaod p e) \<and>
         user_id (applyUpdateUserPaylaod p e) = user_id e \<and>
         isActive (applyUpdateUserPaylaod p e) = isActive e"
    using update_stored [of db userId e U p] by (simp add: applyUpdateUserPaylaod_frame)
qed (simp_all add: update_ids update_flags disable_ids enable_ids delete_rows create_rows
    applyUpdateOrderPayload_def)

text \<open>
  User 1 patches its own password, role and remaining columns; the stored row keeps id 1 and
  stays active.
\<close>

theorem update_keeps_identity_witness:
  "\<exists>db'. update 1 (caller 1 User)
            \<lparr> patch_password = Some ''hash-3'', patch_roles = Some Seller,
              patch_fields = (\<lambda>c. ''ana maria'') \<rparr> users0 = (Inr (), db') \<and>
      findOne db' 1 = Some \<lparr> user_id = 1, isActive = True, password = ''hash-3'',
                             roles = Some Seller, columns = ''ana maria'' \<rparr>"
proof -
  let ?p = "\<lparr> patch_password = Some ''hash-3'', patch_roles = Some Seller,
              patch_fields = (\<lambda>c::string. ''ana maria'') \<rparr>"
  have p1: "hasPermissions (user_id user1) (caller 1 User)"
    by (simp add: hasPermissions_def caller_def users0_rows)
  have v: "applyUpdateUserPaylaod ?p user1
             = \<lparr> user_id = 1, isActive = True, password = ''hash-3'',
                 roles = Some Seller, columns = ''ana maria'' \<rparr>"
    by (simp add: applyUpdateUserPaylaod_def user1_def)
  have pre: "findOne users0 1 = Some user1 \<and> isActive user1 \<and>
               hasPermissions (user_id user1) (caller 1 User)"
    using users0_rows p1 by blast
  note t = update_keeps_identity [where db = users0 and userId = 1 and U = "caller 1 User"
      and p = ?p, THEN conjunct1, rule_format, of user1]
  from t [OF pre] obtain db' where
    "update 1 (caller 1 User) ?p users0 = (Inr (), db')"
    "findOne db' 1 = Some (applyUpdateUserPaylaod ?p user1)"
    by blast
  then show ?thesis unfolding v by blast
qed

section \<open>Creating\<close>

lemma create_entity:
  "fst (create enc c db)
     = \<lparr> user_id = generated_id db, isActive = True, password = enc (payload_password c),
         roles = Some (case payload_roles c of None \<Rightarrow> User | Some r \<Rightarrow> r),
         columns = payload_fields c \<rparr>"
  by (simp add: create_def save_def Let_def)

lemma create_findOne:
  "findOne (snd (create enc c db)) (user_id (fst (create enc c db))) = Some (fst (create enc c db))"
  by (simp add: create_rows findOne_append) (simp add: create_entity findOne_generated_id)

text \<open>
  Claim C7. \<open>create\<close> followed by \<open>get\<close> on the created id, by the created user itself
  (whatever its role), returns the created row. Its id is new to the table, its entity-specific
  columns are the payload's, its password is the payload's password passed through
  \<^verbatim>\<open>encryptPassword\<close>, it is active, and its role is the payload's role when the payload
  gives one.
\<close>

theorem create_get_round_trip:
  "(case create encryptPassword c db of (created, db') \<Rightarrow>
      get (user_id created) \<lparr> requestUser_id = user_id created, role = r \<rparr> None db'
        = (Inr created, db') \<and>
      findOne db (user_id created) = None \<and>
      columns created = payload_fields c \<and>
      password created = encryptPassword (payload_password c) \<and>
      isActive created = True \<and>
      (\<forall>x. payload_roles c = Some x \<longrightarrow> roles created = Some x))"
proof -
  obtain created db' where cr: "create encryptPassword c db = (created, db')"
    by (cases "create encryptPassword c db")
  have e: "created = fst (create encryptPassword c db)" and d: "db' = snd (create encryptPassword c db)"
    using cr by simp_all
  have f: "findOne db' (user_id created) = Some created"
    unfolding e d by (rule create_findOne)
  have a: "isActive created" unfolding e by (simp add: create_entity)
  have p: "hasPermissions (user_id created) \<lparr> requestUser_id = user_id created, role = r \<rparr>"
    by (simp add: hasPermissions_def)
  have g: "get (user_id created) \<lparr> requestUser_id = user_id created, role = r \<rparr> None db'
             = (Inr created, db')"
    using f a p by (rule get_permitted)
  have n: "findOne db (user_id created) = None"
    unfolding e by (simp add: create_entity findOne_generated_id)
  show ?thesis
    unfolding cr using g n by (simp add: e create_entity)
qed

text \<open>
  A third user is created in the example table, with list reversal standing in for the
  hashing, and reads itself back.
\<close>

theorem create_get_round_trip_witness:
  "get 3 (caller 3 Seller) None
       (users0 @ [\<lparr> user_id = 3, isActive = True, password = ''drowssap'', roles = Some Seller,
                    columns = ''carla'' \<rparr>])
     = (Inr \<lparr> user_id = 3, isActive = True, password = ''drowssap'', roles = Some Seller,
              columns = ''carla'' \<rparr>,
        users0 @ [\<lparr> user_id = 3, isActive = True, password = ''drowssap'', roles = Some Seller,
                    columns = ''carla'' \<rparr>])"
proof -
  let ?c = "\<lparr> payload_password = ''password'', payload_roles = Some Seller,
              payload_fields = ''carla'' \<rparr>"
  have g: "generated_id users0 = 3"
    by (simp add: generated_id_def users0_def user1_def user2_def)
  have cr: "create rev ?c users0
              = (\<lparr> user_id = 3, isActive = True, password = ''drowssap'', roles = Some Seller,
                   columns = ''carla'' \<rparr>,
                 users0 @ [\<lparr> user_id = 3, isActive = True, password = ''drowssap'',
                   roles = Some Seller, columns = ''carla'' \<rparr>])"
    by (simp add: create_def save_def Let_def g)
  show ?thesis
    using create_get_round_trip [where encryptPassword = rev and c = ?c and db = users0
        and r = Seller]
    unfolding cr by (simp add: caller_def)
qed

text \<open>
  Claim C9. When the payload has no role, \<open>create\<close> stores the user with the role
  \<^verbatim>\<open>RolesEnum.User\<close>; when the payload has one, that role is stored. The row that
  \<open>create\<close> returns is the row that is stored under the new id.
\<close>

theorem create_default_role:
  "(payload_roles c = None \<longrightarrow>
      roles (fst (create encryptPassword c db)) = Some User) \<and>
   (\<forall>r. payload_roles c = Some r \<longrightarrow>
      roles (fst (create encryptPassword c db)) = Some r) \<and>
   findOne (snd (create encryptPassword c db)) (user_id (fst (create encryptPassword c db)))
     = Some (fst (create encryptPassword c db))"
  by (simp add: create_findOne) (simp add: create_entity)

text \<open>A payload without a role and a payload with the role Admin.\<close>

theorem create_default_role_witness:
  "roles (fst (create rev \<lparr> payload_password = ''password'', payload_roles = None,
                            payload_fields = ''carla'' \<rparr> users0)) = Some User \<and>
   roles (fst (create rev \<lparr> payload_password = ''password'', payload_roles = Some Admin,
                            payload_fields = ''dora'' \<rparr> users0)) = Some Admin"
  using create_default_role [where encryptPassword = rev and db = users0
      and c = "\<lparr> payload_password = ''password'', payload_roles = None,
                 payload_fields = ''carla'' \<rparr>"]
    create_default_role [where encryptPassword = rev and db = users0
      and c = "\<lparr> payload_password = ''password'', payload_roles = Some Admin,
                 payload_fields = ''dora'' \<rparr>"]
  by simp

section \<open>The shopping-cart routes\<close>

text \<open>
  Claim C10. For a caller whose role is Admin, the routes that update, disable and enable a
  shopping cart are the calls of the service on the cart id (and the payload) alone, whatever
  the service is: neither the caller's id nor the cart's owner takes part, so the outcome is
  the same for every Admin.
\<close>

theorem shopping_cart_admin_routes:
  "role U = Admin \<Longrightarrow>
     ShoppingCartController_update shoppingCartService_update U shoppingCartId payload db
       = shoppingCartService_update shoppingCartId payload db \<and>
     ShoppingCartController_disable shoppingCartService_disable U shoppingCartId db
       = shoppingCartService_disable shoppingCartId db \<and>
     ShoppingCartController_enable shoppingCartService_enable U shoppingCartId db
       = shoppingCartService_enable shoppingCartId db"
  by (simp add: ShoppingCartController_update_def ShoppingCartController_disable_def
      ShoppingCartController_enable_def ProtectTo_def)

text \<open>
  The scenario of the specification: Admin 9 updates, disables and enables the cart of
  user 5.
\<close>

theorem shopping_cart_admin_routes_witness:
  "ShoppingCartController_update ShoppingCartService_update (caller 9 Admin) 7 (\<lambda>b. ''new'') carts0
     = (Inr (), [\<lparr> res_id = 7, res_userId = 5, res_isActive = True, body = ''new'' \<rparr>]) \<and>
   ShoppingCartController_disable ShoppingCartService_disable (caller 9 Admin) 7 carts0
     = (Inr (), [\<lparr> res_id = 7, res_userId = 5, res_isActive = False, body = ''cart'' \<rparr>]) \<and>
   ShoppingCartController_enable ShoppingCartService_enable (caller 9 Admin) 7
       [\<lparr> res_id = 7, res_userId = 5, res_isActive = False, body = ''cart'' \<rparr>]
     = (Inr (), carts0)"
proof -
  have adm: "role (caller 9 Admin) = Admin" by (simp add: caller_def)
  have u: "ShoppingCartService_update 7 (\<lambda>b. ''new'') carts0
             = (Inr (), [\<lparr> res_id = 7, res_userId = 5, res_isActive = True, body = ''new'' \<rparr>])"
    by (simp add: ShoppingCartService_update_def findCart_def writeCart_def carts0_def)
  have d: "ShoppingCartService_disable 7 carts0
             = (Inr (), [\<lparr> res_id = 7, res_userId = 5, res_isActive = False, body = ''cart'' \<rparr>])"
    by (simp add: ShoppingCartService_disable_def findCart_def writeCart_def carts0_def)
  have e: "ShoppingCartService_enable 7
               [\<lparr> res_id = 7, res_userId = 5, res_isActive = False, body = ''cart'' \<rparr>]
             = (Inr (), carts0)"
    by (simp add: ShoppingCartService_enable_def findCart_def writeCart_def carts0_def)
  note r = shopping_cart_admin_routes [OF adm]
  have cu: "ShoppingCartController_update ShoppingCartService_update (caller 9 Admin) 7
              (\<lambda>b. ''new'') carts0 = ShoppingCartService_update 7 (\<lambda>b. ''new'') carts0"
    by (rule r [THEN conjunct1])
  have cd: "ShoppingCartController_disable ShoppingCartService_disable (caller 9 Admin) 7 carts0
              = ShoppingCartService_disable 7 carts0"
    by (rule r [THEN conjunct2, THEN conjunct1])
  have ce: "ShoppingCartController_enable ShoppingCartService_enable (caller 9 Admin) 7
               [\<lparr> res_id = 7, res_userId = 5, res_isActive = False, body = ''cart'' \<rparr>]
              = ShoppingCartService_enable 7
               [\<lparr> res_id = 7, res_userId = 5, res_isActive = False, body = ''cart'' \<rparr>]"
    by (rule r [THEN conjunct2, THEN conjunct2])
  show ?thesis
    unfolding cu cd ce u d e by simp
qed

end
